theory Spec2Isabelle
  imports Main "HOL-Library.Word"
begin

section \<open>Processes as trees of external calls\<close>

text \<open>
  Both programs are straight-line sequences of library and system calls whose results
  decide how the program goes on.  A program is embedded as a resumption: either it has
  terminated with a status, or it issues one call and continues with a function of the
  call's response.  Control flow (\<open>if\<close>, loops, locals) is HOL's own.

  C types: pointers and \<open>size_t\<close> are 64-bit words, \<open>char\<close> is an 8-bit word.
  Values of type \<open>int\<close>, \<open>pid_t\<close>, \<open>key_t\<close>, \<open>ssize_t\<close> and \<open>off_t\<close> are
  HOL integers: the programs only compare them with constants and compute \<open>i * i\<close>
  for \<open>i < 10\<close>, so no arithmetic on them can overflow.
\<close>

type_synonym addr = "64 word"

text \<open>How a process ends: with status \<open>n\<close> after \<open>exit(n)\<close> or \<open>return n\<close>
  from \<open>main\<close>; after \<open>return;\<close> from \<open>main\<close>, with whatever the return register
  holds (\<open>ExitUnspecified\<close> stands for any status, 0 included); by \<open>abort()\<close> from a
  failed \<open>assert\<close>; killed at a store or load outside every mapping.\<close>

datatype status = Exit int | ExitUnspecified | Aborted | Segfault

datatype prot = PROT_READ | PROT_WRITE

datatype mflag = MAP_SHARED | MAP_PRIVATE | MAP_FIXED | MAP_ANONYMOUS | MAP_POPULATE
  | MAP_HUGETLB | MAP_HUGE_2MB | MAP_HUGE_1GB

datatype oflag = O_CREAT | O_RDWR

datatype whence = SEEK_SET

datatype ipcflag = IPC_CREAT

datatype shmcmd = IPC_STAT | IPC_RMID

datatype arg = AStr string | APtr addr

text \<open>The calls of \<open>mmap.c\<close> and \<open>shm.c\<close>, with their arguments.  Flag words are the
  lists of the names or-ed together in the source; permission bits are numbers
  (\<open>0644 = 420\<close>, \<open>0666 = 438\<close>).  \<open>Store8\<close>/\<open>Load8\<close> are the \<open>char\<close> accesses
  \<open>mem[i]\<close> of \<open>mmap.c\<close>, \<open>StoreInt\<close>/\<open>LoadInt\<close> the \<open>int\<close> accesses
  \<open>shm_ptr[i]\<close> of \<open>shm.c\<close>.  \<open>Memset c n\<close> is \<open>memset(test_data, c, n)\<close> on the
  local buffer of \<open>mmap.c\<close>, \<open>ExitCall n\<close> is \<open>exit(n)\<close>.\<close>

datatype call =
    Printf string "arg list"
  | Perror string
  | Mmap addr "64 word" "prot list" "mflag list" int int
  | Munmap addr "64 word"
  | Open string "oflag list" nat
  | Write int "char list" nat
  | Lseek int int whence
  | Close int
  | Unlink string
  | Store8 addr "8 word"
  | Load8 addr
  | Ftok string char
  | Shmget int nat "ipcflag list" nat
  | Shmctl int shmcmd
  | Shmat int addr int
  | Shmdt addr
  | Getpid
  | Fork
  | Wait
  | StoreInt addr int
  | LoadInt addr
  | Memset char nat
  | ExitCall int

text \<open>\<open>struct shmid_ds\<close>, the fields \<open>shm.c\<close> reads.\<close>

record shmid_ds =
  shm_perm_key :: int
  shm_cpid :: int
  shm_nattch :: nat
  shm_segsz :: nat

text \<open>What a call gives back: an integer result (\<open>ret\<close>), a pointer result (\<open>ptr\<close>),
  a loaded \<open>char\<close> (\<open>byte\<close>), and the \<open>shmid_ds\<close> written through the third
  argument of \<open>shmctl\<close>.  Each call site reads the field of its result type.  For an
  access \<open>shm_ptr[i]\<close>, \<open>fault\<close> says that the address is outside every mapping:
  the process is killed (SIGSEGV).\<close>

record resp =
  ret :: int
  ptr :: addr
  byte :: "8 word"
  ds :: shmid_ds
  fault :: bool

datatype proc = Halt status | Sys call "resp \<Rightarrow> proc"

definition no_ds :: shmid_ds where
  "no_ds = \<lparr>shm_perm_key = 0, shm_cpid = 0, shm_nattch = 0, shm_segsz = 0\<rparr>"

definition no_resp :: resp where
  "no_resp = \<lparr>ret = 0, ptr = 0, byte = 0, ds = no_ds, fault = False\<rparr>"

definition MAP_FAILED :: addr where
  "MAP_FAILED = - 1"

section \<open>One process against an arbitrary kernel\<close>

text \<open>
  A run of a process yields its status, the calls it made, each with its response, and
  the memory it leaves.  The kernel is an oracle \<open>env\<close>: the response to the call
  made when \<open>n\<close> calls have been recorded is \<open>env n\<close>, so a statement for every
  \<open>env\<close> covers every result a call can have.  \<open>char\<close> accesses go to the
  process's own memory \<open>m\<close> and are not recorded.
\<close>

type_synonym memory = "addr \<Rightarrow> 8 word"

type_synonym outcome = "status \<times> (call \<times> resp) list \<times> memory"

primrec run :: "proc \<Rightarrow> (nat \<Rightarrow> resp) \<Rightarrow> memory \<Rightarrow> nat \<Rightarrow> outcome" where
  "run (Halt st) env m n = (st, [], m)"
| "run (Sys c k) env m n =
     (case c of
        Store8 a v \<Rightarrow> run (k no_resp) env (m(a := v)) n
      | Load8 a \<Rightarrow> run (k (no_resp\<lparr>byte := m a\<rparr>)) env m n
      | _ \<Rightarrow> (case run (k (env n)) env m (Suc n) of
               (st, t, m') \<Rightarrow> (st, (c, env n) # t, m')))"

definition status_of :: "outcome \<Rightarrow> status" where
  "status_of r = fst r"

definition trace_of :: "outcome \<Rightarrow> (call \<times> resp) list" where
  "trace_of r = fst (snd r)"

definition mem_of :: "outcome \<Rightarrow> memory" where
  "mem_of r = snd (snd r)"

section \<open>mmap.c\<close>

subsection \<open>\<open>test_memory_rw\<close>\<close>

text \<open>The two loops \<open>for (size_t i = 0; i < size && i < 1024; i++)\<close>: the first stores
  \<open>(char)(i % 256)\<close> at \<open>mem[i]\<close>, the second asserts that \<open>mem[i]\<close> holds it.\<close>

function write_loop :: "addr \<Rightarrow> 64 word \<Rightarrow> 64 word \<Rightarrow> proc \<Rightarrow> proc" where
  "write_loop mem_p sz i k =
     (if i < sz \<and> i < 1024
      then Sys (Store8 (mem_p + i) (ucast (i mod 256))) (\<lambda>_. write_loop mem_p sz (i + 1) k)
      else k)"
  by pat_completeness auto
termination
  apply (relation "measure (\<lambda>(p, sz, i, k). 1024 - unat i)")
   apply simp
  apply (simp add: unat_word_ariths word_less_nat_alt)
  apply arith
  done

function read_loop :: "addr \<Rightarrow> 64 word \<Rightarrow> 64 word \<Rightarrow> proc \<Rightarrow> proc" where
  "read_loop mem_p sz i k =
     (if i < sz \<and> i < 1024
      then Sys (Load8 (mem_p + i)) (\<lambda>r.
           if byte r = ucast (i mod 256) then read_loop mem_p sz (i + 1) k else Halt Aborted)
      else k)"
  by pat_completeness auto
termination
  apply (relation "measure (\<lambda>(p, sz, i, k). 1024 - unat i)")
   apply simp
  apply (simp add: unat_word_ariths word_less_nat_alt)
  apply arith
  done

declare write_loop.simps [simp del] read_loop.simps [simp del]

definition test_memory_rw :: "addr \<Rightarrow> 64 word \<Rightarrow> string \<Rightarrow> proc \<Rightarrow> proc" where
  "test_memory_rw p sz page_type k =
     Sys (Printf ''Testing %s memory read/write...\<newline>'' [AStr page_type]) (\<lambda>_.
     write_loop p sz 0 (
     read_loop p sz 0 (
     Sys (Printf ''%s memory read/write test passed\<newline>'' [AStr page_type]) (\<lambda>_.
     k))))"

subsection \<open>The six tests\<close>

text \<open>Each test function is followed by the rest of the program, \<open>k\<close>.
  \<open>assert(c)\<close> is \<open>if c then \<dots> else Halt Aborted\<close>; the sizes are
  \<open>2 * 1024 * 1024 = 2097152\<close> and \<open>1024 * 1024 * 1024 = 1073741824\<close>.\<close>

definition test_individual_alloc_rw_free :: "proc \<Rightarrow> proc" where
  "test_individual_alloc_rw_free k =
     Sys (Printf ''========== START test_individual_alloc_rw_free ==========\<newline>'' []) (\<lambda>_.
     Sys (Mmap 0 4096 [PROT_READ, PROT_WRITE]
            [MAP_PRIVATE, MAP_ANONYMOUS] (- 1) 0) (\<lambda>ptr_4k.
     if ptr ptr_4k = MAP_FAILED then Halt Aborted else
     Sys (Printf ''4KB page allocated at %p\<newline>'' [APtr (ptr ptr_4k)]) (\<lambda>_.
     test_memory_rw (ptr ptr_4k) 4096 ''4KB'' (
     Sys (Munmap (ptr ptr_4k) 4096) (\<lambda>r.
     if ret r \<noteq> 0 then Halt Aborted else
     Sys (Printf ''4KB page freed\<newline>'' []) (\<lambda>_.
     Sys (Mmap 0 2097152 [PROT_READ, PROT_WRITE]
            [MAP_PRIVATE, MAP_ANONYMOUS, MAP_HUGETLB, MAP_HUGE_2MB] (- 1) 0) (\<lambda>ptr_2m.
     if ptr ptr_2m = MAP_FAILED then Halt Aborted else
     Sys (Printf ''2MB page allocated at %p\<newline>'' [APtr (ptr ptr_2m)]) (\<lambda>_.
     test_memory_rw (ptr ptr_2m) 2097152 ''2MB'' (
     Sys (Munmap (ptr ptr_2m) 2097152) (\<lambda>r.
     if ret r \<noteq> 0 then Halt Aborted else
     Sys (Printf ''2MB page freed\<newline>'' []) (\<lambda>_.
     Sys (Mmap 0 1073741824 [PROT_READ, PROT_WRITE]
            [MAP_PRIVATE, MAP_ANONYMOUS, MAP_HUGETLB, MAP_HUGE_1GB] (- 1) 0) (\<lambda>ptr_1g.
     if ptr ptr_1g = MAP_FAILED then Halt Aborted else
     Sys (Printf ''1GB page allocated at %p\<newline>'' [APtr (ptr ptr_1g)]) (\<lambda>_.
     test_memory_rw (ptr ptr_1g) 1073741824 ''1GB'' (
     Sys (Munmap (ptr ptr_1g) 1073741824) (\<lambda>r.
     if ret r \<noteq> 0 then Halt Aborted else
     Sys (Printf ''1GB page freed\<newline>'' []) (\<lambda>_.
     Sys (Printf ''========== END test_individual_alloc_rw_free ==========\<newline>'' []) (\<lambda>_.
     k)))))))))))))))))"

definition test_batch_alloc_rw_free :: "proc \<Rightarrow> proc" where
  "test_batch_alloc_rw_free k =
     Sys (Printf ''========== START test_batch_alloc_rw_free ==========\<newline>'' []) (\<lambda>_.
     Sys (Mmap 0 4096 [PROT_READ, PROT_WRITE]
            [MAP_PRIVATE, MAP_ANONYMOUS] (- 1) 0) (\<lambda>ptr_4k.
     if ptr ptr_4k = MAP_FAILED then Halt Aborted else
     Sys (Printf ''Batch allocated 4KB page at %p\<newline>'' [APtr (ptr ptr_4k)]) (\<lambda>_.
     Sys (Mmap 0 2097152 [PROT_READ, PROT_WRITE]
            [MAP_PRIVATE, MAP_ANONYMOUS, MAP_HUGETLB, MAP_HUGE_2MB] (- 1) 0) (\<lambda>ptr_2m.
     if ptr ptr_2m = MAP_FAILED then Halt Aborted else
     Sys (Printf ''Batch allocated 2MB page at %p\<newline>'' [APtr (ptr ptr_2m)]) (\<lambda>_.
     Sys (Mmap 0 1073741824 [PROT_READ, PROT_WRITE]
            [MAP_PRIVATE, MAP_ANONYMOUS, MAP_HUGETLB, MAP_HUGE_1GB] (- 1) 0) (\<lambda>ptr_1g.
     if ptr ptr_1g = MAP_FAILED then Halt Aborted else
     Sys (Printf ''Batch allocated 1GB page at %p\<newline>'' [APtr (ptr ptr_1g)]) (\<lambda>_.
     test_memory_rw (ptr ptr_4k) 4096 ''4KB batch'' (
     test_memory_rw (ptr ptr_2m) 2097152 ''2MB batch'' (
     test_memory_rw (ptr ptr_1g) 1073741824 ''1GB batch'' (
     Sys (Munmap (ptr ptr_4k) 4096) (\<lambda>r.
     if ret r \<noteq> 0 then Halt Aborted else
     Sys (Printf ''Batch freed 4KB page\<newline>'' []) (\<lambda>_.
     Sys (Munmap (ptr ptr_2m) 2097152) (\<lambda>r.
     if ret r \<noteq> 0 then Halt Aborted else
     Sys (Printf ''Batch freed 2MB page\<newline>'' []) (\<lambda>_.
     Sys (Munmap (ptr ptr_1g) 1073741824) (\<lambda>r.
     if ret r \<noteq> 0 then Halt Aborted else
     Sys (Printf ''Batch freed 1GB page\<newline>'' []) (\<lambda>_.
     Sys (Printf ''========== END test_batch_alloc_rw_free ==========\<newline>'' []) (\<lambda>_.
     k)))))))))))))))))"

definition test_interleaved_alloc_rw_free :: "proc \<Rightarrow> proc" where
  "test_interleaved_alloc_rw_free k =
     Sys (Printf ''========== START test_interleaved_alloc_rw_free ==========\<newline>'' []) (\<lambda>_.
     Sys (Mmap 0 4096 [PROT_READ, PROT_WRITE]
            [MAP_PRIVATE, MAP_ANONYMOUS] (- 1) 0) (\<lambda>ptr_4k.
     if ptr ptr_4k = MAP_FAILED then Halt Aborted else
     Sys (Printf ''Interleaved: allocated 4KB page\<newline>'' []) (\<lambda>_.
     test_memory_rw (ptr ptr_4k) 4096 ''4KB interleaved'' (
     Sys (Mmap 0 2097152 [PROT_READ, PROT_WRITE]
            [MAP_PRIVATE, MAP_ANONYMOUS, MAP_HUGETLB, MAP_HUGE_2MB] (- 1) 0) (\<lambda>ptr_2m.
     if ptr ptr_2m = MAP_FAILED then Halt Aborted else
     Sys (Printf ''Interleaved: allocated 2MB page\<newline>'' []) (\<lambda>_.
     test_memory_rw (ptr ptr_2m) 2097152 ''2MB interleaved'' (
     Sys (Munmap (ptr ptr_4k) 4096) (\<lambda>r.
     if ret r \<noteq> 0 then Halt Aborted else
     Sys (Printf ''Interleaved: freed 4KB page\<newline>'' []) (\<lambda>_.
     Sys (Mmap 0 1073741824 [PROT_READ, PROT_WRITE]
            [MAP_PRIVATE, MAP_ANONYMOUS, MAP_HUGETLB, MAP_HUGE_1GB] (- 1) 0) (\<lambda>ptr_1g.
     if ptr ptr_1g = MAP_FAILED then Halt Aborted else
     Sys (Printf ''Interleaved: allocated 1GB page\<newline>'' []) (\<lambda>_.
     test_memory_rw (ptr ptr_1g) 1073741824 ''1GB interleaved'' (
     Sys (Munmap (ptr ptr_2m) 2097152) (\<lambda>r.
     if ret r \<noteq> 0 then Halt Aborted else
     Sys (Printf ''Interleaved: freed 2MB page\<newline>'' []) (\<lambda>_.
     Sys (Munmap (ptr ptr_1g) 1073741824) (\<lambda>r.
     if ret r \<noteq> 0 then Halt Aborted else
     Sys (Printf ''Interleaved: freed 1GB page\<newline>'' []) (\<lambda>_.
     Sys (Printf ''========== END test_interleaved_alloc_rw_free ==========\<newline>'' []) (\<lambda>_.
     k)))))))))))))))))"

definition test_eager_vs_lazy_allocation :: "proc \<Rightarrow> proc" where
  "test_eager_vs_lazy_allocation k =
     Sys (Printf ''========== START test_eager_vs_lazy_allocation ==========\<newline>'' []) (\<lambda>_.
     Sys (Mmap 0 4096 [PROT_READ, PROT_WRITE]
            [MAP_PRIVATE, MAP_ANONYMOUS, MAP_POPULATE] (- 1) 0) (\<lambda>ptr_4k_eager.
     if ptr ptr_4k_eager = MAP_FAILED then Halt Aborted else
     Sys (Printf ''4KB eager allocation completed\<newline>'' []) (\<lambda>_.
     test_memory_rw (ptr ptr_4k_eager) 4096 ''4KB eager'' (
     Sys (Munmap (ptr ptr_4k_eager) 4096) (\<lambda>r.
     if ret r \<noteq> 0 then Halt Aborted else
     Sys (Mmap 0 4096 [PROT_READ, PROT_WRITE]
            [MAP_PRIVATE, MAP_ANONYMOUS] (- 1) 0) (\<lambda>ptr_4k_lazy.
     if ptr ptr_4k_lazy = MAP_FAILED then Halt Aborted else
     Sys (Printf ''4KB lazy allocation completed\<newline>'' []) (\<lambda>_.
     test_memory_rw (ptr ptr_4k_lazy) 4096 ''4KB lazy'' (
     Sys (Munmap (ptr ptr_4k_lazy) 4096) (\<lambda>r.
     if ret r \<noteq> 0 then Halt Aborted else
     Sys (Mmap 0 2097152 [PROT_READ, PROT_WRITE]
            [MAP_PRIVATE, MAP_ANONYMOUS, MAP_HUGETLB, MAP_HUGE_2MB, MAP_POPULATE] (- 1) 0) (\<lambda>ptr_2m_eager.
     if ptr ptr_2m_eager = MAP_FAILED then Halt Aborted else
     Sys (Printf ''2MB eager allocation completed\<newline>'' []) (\<lambda>_.
     test_memory_rw (ptr ptr_2m_eager) 2097152 ''2MB eager'' (
     Sys (Munmap (ptr ptr_2m_eager) 2097152) (\<lambda>r.
     if ret r \<noteq> 0 then Halt Aborted else
     Sys (Mmap 0 2097152 [PROT_READ, PROT_WRITE]
            [MAP_PRIVATE, MAP_ANONYMOUS, MAP_HUGETLB, MAP_HUGE_2MB] (- 1) 0) (\<lambda>ptr_2m_lazy.
     if ptr ptr_2m_lazy = MAP_FAILED then Halt Aborted else
     Sys (Printf ''2MB lazy allocation completed\<newline>'' []) (\<lambda>_.
     test_memory_rw (ptr ptr_2m_lazy) 2097152 ''2MB lazy'' (
     Sys (Munmap (ptr ptr_2m_lazy) 2097152) (\<lambda>r.
     if ret r \<noteq> 0 then Halt Aborted else
     Sys (Mmap 0 1073741824 [PROT_READ, PROT_WRITE]
            [MAP_PRIVATE, MAP_ANONYMOUS, MAP_HUGETLB, MAP_HUGE_1GB, MAP_POPULATE] (- 1) 0) (\<lambda>ptr_1g_eager.
     if ptr ptr_1g_eager = MAP_FAILED then Halt Aborted else
     Sys (Printf ''1GB eager allocation completed\<newline>'' []) (\<lambda>_.
     test_memory_rw (ptr ptr_1g_eager) 1073741824 ''1GB eager'' (
     Sys (Munmap (ptr ptr_1g_eager) 1073741824) (\<lambda>r.
     if ret r \<noteq> 0 then Halt Aborted else
     Sys (Mmap 0 1073741824 [PROT_READ, PROT_WRITE]
            [MAP_PRIVATE, MAP_ANONYMOUS, MAP_HUGETLB, MAP_HUGE_1GB] (- 1) 0) (\<lambda>ptr_1g_lazy.
     if ptr ptr_1g_lazy = MAP_FAILED then Halt Aborted else
     Sys (Printf ''1GB lazy allocation completed\<newline>'' []) (\<lambda>_.
     test_memory_rw (ptr ptr_1g_lazy) 1073741824 ''1GB lazy'' (
     Sys (Munmap (ptr ptr_1g_lazy) 1073741824) (\<lambda>r.
     if ret r \<noteq> 0 then Halt Aborted else
     Sys (Printf ''All eager/lazy allocations freed\<newline>'' []) (\<lambda>_.
     Sys (Printf ''========== END test_eager_vs_lazy_allocation ==========\<newline>'' []) (\<lambda>_.
     k)))))))))))))))))))))))))))"

text \<open>\<open>test_file_mapping_hugepages\<close>: after \<open>memset\<close>, \<open>test_data\<close> is 4096
  bytes \<open>'A'\<close>; \<open>write(fd, "", 1)\<close> writes the terminating zero byte of the empty
  string.
  The results of \<open>write\<close>, \<open>lseek\<close>, \<open>close\<close> and \<open>unlink\<close> are not looked at.
  When the 2MB mapping fails the test prints a line and goes on.\<close>

definition test_file_mapping_hugepages :: "proc \<Rightarrow> proc" where
  "test_file_mapping_hugepages k =
     Sys (Printf ''========== START test_file_mapping_hugepages ==========\<newline>'' []) (\<lambda>_.
     Sys (Open ''/tmp/test_file'' [O_CREAT, O_RDWR] 420) (\<lambda>fd.
     if \<not> ret fd \<ge> 0 then Halt Aborted else
     Sys (Memset CHR ''A'' 4096) (\<lambda>_.
     Sys (Write (ret fd) (replicate 4096 CHR ''A'') 4096) (\<lambda>_.
     Sys (Mmap 0 4096 [PROT_READ, PROT_WRITE] [MAP_SHARED] (ret fd) 0) (\<lambda>ptr_4k.
     if ptr ptr_4k = MAP_FAILED then Halt Aborted else
     Sys (Printf ''4KB file mapping at %p\<newline>'' [APtr (ptr ptr_4k)]) (\<lambda>_.
     test_memory_rw (ptr ptr_4k) 4096 ''4KB file'' (
     Sys (Munmap (ptr ptr_4k) 4096) (\<lambda>r.
     if ret r \<noteq> 0 then Halt Aborted else
     Sys (Lseek (ret fd) (2 * 1024 * 1024 - 1) SEEK_SET) (\<lambda>_.
     Sys (Write (ret fd) [CHR 0x00] 1) (\<lambda>_.
     Sys (Mmap 0 2097152 [PROT_READ, PROT_WRITE]
            [MAP_SHARED, MAP_HUGETLB, MAP_HUGE_2MB] (ret fd) 0) (\<lambda>ptr_2m.
     let rest =
       Sys (Close (ret fd)) (\<lambda>_.
       Sys (Unlink ''/tmp/test_file'') (\<lambda>_.
       Sys (Printf ''========== END test_file_mapping_hugepages ==========\<newline>'' []) (\<lambda>_.
       k)))
     in
     if ptr ptr_2m \<noteq> MAP_FAILED then
       Sys (Printf ''2MB file mapping at %p\<newline>'' [APtr (ptr ptr_2m)]) (\<lambda>_.
       test_memory_rw (ptr ptr_2m) 2097152 ''2MB file'' (
       Sys (Munmap (ptr ptr_2m) 2097152) (\<lambda>r.
       if ret r \<noteq> 0 then Halt Aborted else
       rest)))
     else
       Sys (Printf ''2MB file mapping failed, skipping\<newline>'' []) (\<lambda>_.
       rest))))))))))))"

text \<open>\<open>test_linear_mapping\<close>: three \<open>MAP_FIXED\<close> mappings at \<open>base_addr\<close>,
  \<open>base_addr + 0x1000000\<close> and \<open>base_addr + 0x20000000\<close>.  A failed mapping is
  reported and the test goes on; the 1GB mapping is also given up when it is not at the
  requested address.\<close>

definition base_addr :: addr where
  "base_addr = 0x08000000"

definition linear_1g :: "proc \<Rightarrow> proc" where
  "linear_1g k =
     Sys (Mmap (base_addr + 0x20000000) 1073741824 [PROT_READ, PROT_WRITE]
            [MAP_PRIVATE, MAP_ANONYMOUS, MAP_FIXED, MAP_HUGETLB, MAP_HUGE_1GB] (- 1) 0) (\<lambda>ptr_1g.
     if ptr ptr_1g \<noteq> MAP_FAILED \<and> ptr ptr_1g = base_addr + 0x20000000 then
       Sys (Printf ''1GB linear mapping at %p\<newline>'' [APtr (ptr ptr_1g)]) (\<lambda>_.
       test_memory_rw (ptr ptr_1g) 1073741824 ''1GB linear'' (
       Sys (Munmap (ptr ptr_1g) 1073741824) (\<lambda>r.
       if ret r \<noteq> 0 then Halt Aborted else
       Sys (Printf ''1GB linear mapping freed\<newline>'' []) (\<lambda>_.
       k))))
     else
       Sys (Printf ''1GB linear mapping failed\<newline>'' []) (\<lambda>_.
       k))"

definition linear_2m :: "proc \<Rightarrow> proc" where
  "linear_2m k =
     Sys (Mmap (base_addr + 0x1000000) 2097152 [PROT_READ, PROT_WRITE]
            [MAP_PRIVATE, MAP_ANONYMOUS, MAP_FIXED, MAP_HUGETLB, MAP_HUGE_2MB] (- 1) 0) (\<lambda>ptr_2m.
     if ptr ptr_2m \<noteq> MAP_FAILED then
       Sys (Printf ''2MB linear mapping at %p\<newline>'' [APtr (ptr ptr_2m)]) (\<lambda>_.
       test_memory_rw (ptr ptr_2m) 2097152 ''2MB linear'' (
       Sys (Munmap (ptr ptr_2m) 2097152) (\<lambda>r.
       if ret r \<noteq> 0 then Halt Aborted else
       Sys (Printf ''2MB linear mapping freed\<newline>'' []) (\<lambda>_.
       k))))
     else
       Sys (Printf ''2MB linear mapping failed\<newline>'' []) (\<lambda>_.
       k))"

definition linear_4k :: "proc \<Rightarrow> proc" where
  "linear_4k k =
     Sys (Mmap base_addr 4096 [PROT_READ, PROT_WRITE]
            [MAP_PRIVATE, MAP_ANONYMOUS, MAP_FIXED] (- 1) 0) (\<lambda>ptr_4k.
     if ptr ptr_4k \<noteq> MAP_FAILED then
       Sys (Printf ''4KB linear mapping at %p\<newline>'' [APtr (ptr ptr_4k)]) (\<lambda>_.
       test_memory_rw (ptr ptr_4k) 4096 ''4KB linear'' (
       Sys (Munmap (ptr ptr_4k) 4096) (\<lambda>r.
       if ret r \<noteq> 0 then Halt Aborted else
       Sys (Printf ''4KB linear mapping freed\<newline>'' []) (\<lambda>_.
       k))))
     else
       Sys (Printf ''4KB linear mapping failed\<newline>'' []) (\<lambda>_.
       k))"

definition test_linear_mapping :: "proc \<Rightarrow> proc" where
  "test_linear_mapping k =
     Sys (Printf ''========== START test_linear_mapping ==========\<newline>'' []) (\<lambda>_.
     linear_4k (
     linear_2m (
     linear_1g (
     Sys (Printf ''========== END test_linear_mapping ==========\<newline>'' []) (\<lambda>_.
     k)))))"

definition mmap_main :: proc where
  "mmap_main =
     Sys (Printf ''Starting comprehensive hugepage tests\<newline>'' []) (\<lambda>_.
     test_individual_alloc_rw_free (
     test_batch_alloc_rw_free (
     test_interleaved_alloc_rw_free (
     test_eager_vs_lazy_allocation (
     test_file_mapping_hugepages (
     test_linear_mapping (
     Sys (Printf ''All hugepage tests completed successfully!\<newline>'' []) (\<lambda>_.
     Halt (Exit 0)))))))))"

section \<open>shm.c\<close>

text \<open>\<open>const int NUM = 10000\<close>; \<open>sizeof(int)\<close> is 4 on the targets of the
  repository.\<close>

definition NUM :: nat where
  "NUM = 10000"

definition sizeof_int :: nat where
  "sizeof_int = 4"

text \<open>The child's loop \<open>for (int i = 0; i < 10; i++) shm_ptr[i] = i * i\<close> and the
  parent's loop \<open>for (int i = 0; i < 10; i++) assert(shm_ptr[i] == i * i)\<close>.
  \<open>shm_ptr[i]\<close> is the \<open>int\<close> at address \<open>shm_ptr + 4 * i\<close>; the pointer is
  the unchecked result of \<open>shmat\<close>, and an access that faults kills the process.\<close>

function child_write_loop :: "addr \<Rightarrow> int \<Rightarrow> proc \<Rightarrow> proc" where
  "child_write_loop shm_ptr i k =
     (if i < 10
      then Sys (StoreInt (shm_ptr + of_nat sizeof_int * of_int i) (i * i)) (\<lambda>r.
           if fault r then Halt Segfault else
           child_write_loop shm_ptr (i + 1) k)
      else k)"
  by pat_completeness auto
termination
  by (relation "measure (\<lambda>(p, i, k). nat (10 - i))") auto

function parent_check_loop :: "addr \<Rightarrow> int \<Rightarrow> proc \<Rightarrow> proc" where
  "parent_check_loop shm_ptr i k =
     (if i < 10
      then Sys (LoadInt (shm_ptr + of_nat sizeof_int * of_int i)) (\<lambda>v.
           if fault v then Halt Segfault else
           if ret v = i * i then parent_check_loop shm_ptr (i + 1) k else Halt Aborted)
      else k)"
  by pat_completeness auto
termination
  by (relation "measure (\<lambda>(p, i, k). nat (10 - i))") auto

declare child_write_loop.simps [simp del] parent_check_loop.simps [simp del]

text \<open>The branch \<open>pid == 0\<close> of \<open>main\<close>.  \<open>ds b\<close> is \<open>buf1\<close> after the
  \<open>shmctl\<close> call; the results of \<open>shmat\<close> and of both \<open>shmctl\<close> calls are not
  looked at.\<close>

definition shm_child :: "int \<Rightarrow> proc" where
  "shm_child shm_id =
     Sys (Shmat shm_id 0 0) (\<lambda>shm_ptr.
     Sys (Shmctl shm_id IPC_STAT) (\<lambda>buf1.
     if \<not> (shm_nattch (ds buf1) = 1 \<or> shm_nattch (ds buf1) = 2) then Halt Aborted else
     child_write_loop (ptr shm_ptr) 0 (
     Sys (Shmdt (ptr shm_ptr)) (\<lambda>r.
     if ret r \<noteq> 0 then
       Sys (Perror ''shmdt failed in child'') (\<lambda>_.
       Sys (ExitCall 1) (\<lambda>_. Halt (Exit 1)))
     else
     Sys (Shmctl shm_id IPC_STAT) (\<lambda>buf1.
     if \<not> shm_nattch (ds buf1) = 1 then Halt Aborted else
     Sys (ExitCall 0) (\<lambda>_. Halt (Exit 0)))))))"

text \<open>The \<open>else\<close> branch of \<open>main\<close>.\<close>

definition shm_parent :: "int \<Rightarrow> proc" where
  "shm_parent shm_id =
     Sys (Shmat shm_id 0 0) (\<lambda>shm_ptr.
     Sys (Shmctl shm_id IPC_STAT) (\<lambda>buf2.
     if \<not> (shm_nattch (ds buf2) = 1 \<or> shm_nattch (ds buf2) = 2) then Halt Aborted else
     Sys Wait (\<lambda>_.
     Sys (Shmctl shm_id IPC_STAT) (\<lambda>buf2.
     if \<not> shm_nattch (ds buf2) = 1 then Halt Aborted else
     parent_check_loop (ptr shm_ptr) 0 (
     Sys (Shmdt (ptr shm_ptr)) (\<lambda>r.
     if ret r \<noteq> 0 then Sys (Perror ''shmdt failed in parent'') (\<lambda>_. Halt (Exit 1)) else
     Sys (Shmctl shm_id IPC_STAT) (\<lambda>buf2.
     if \<not> shm_nattch (ds buf2) = 0 then Halt Aborted else
     Sys (Shmctl shm_id IPC_RMID) (\<lambda>r.
     if ret r = - 1 then Sys (Perror ''shmctl failed'') (\<lambda>_. Halt (Exit 1)) else
     Sys (Printf ''shm check passed!\<newline>'' []) (\<lambda>_.
     Halt (Exit 0))))))))))"

text \<open>\<open>main\<close>.  After a failed \<open>shmctl(IPC_STAT)\<close> the source has a bare
  \<open>return;\<close>.  \<open>assert(buf.shm_cpid = getpid())\<close> is an assignment: it stores the
  result of \<open>getpid()\<close> in \<open>buf.shm_cpid\<close> and fails when the stored value is 0.\<close>

definition shm_main :: proc where
  "shm_main =
     Sys (Ftok ''/tmp'' CHR ''A'') (\<lambda>key.
     Sys (Shmget (ret key) (NUM * sizeof_int) [IPC_CREAT] 438) (\<lambda>shm_id.
     if ret shm_id = - 1 then Sys (Perror ''shmget failed'') (\<lambda>_. Halt (Exit 1)) else
     Sys (Shmctl (ret shm_id) IPC_STAT) (\<lambda>r.
     if ret r = - 1 then Sys (Perror ''shmctl IPC_STAT failed'') (\<lambda>_. Halt ExitUnspecified) else
     let buf = ds r in
     if \<not> shm_perm_key buf = ret key then Halt Aborted else
     Sys Getpid (\<lambda>self.
     let buf = buf\<lparr>shm_cpid := ret self\<rparr> in
     if shm_cpid buf = 0 then Halt Aborted else
     if \<not> shm_nattch buf = 0 then Halt Aborted else
     if \<not> shm_segsz buf = NUM * sizeof_int then Halt Aborted else
     Sys Fork (\<lambda>pid.
     if ret pid = - 1 then Sys (Perror ''fork failed'') (\<lambda>_. Halt (Exit 1)) else
     if ret pid = 0 then shm_child (ret shm_id)
     else shm_parent (ret shm_id))))))"

section \<open>Specification-side definitions\<close>

text \<open>The memory the loops of \<open>test_memory_rw\<close> leave behind: offsets from \<open>i\<close> up to
  \<open>min sz 1024\<close> of the mapping at \<open>p\<close> hold the byte pattern, everything else is
  as before.\<close>

definition pattern :: "addr \<Rightarrow> 64 word \<Rightarrow> 64 word \<Rightarrow> (addr \<Rightarrow> 8 word) \<Rightarrow> addr \<Rightarrow> 8 word" where
  "pattern p sz i m a =
     (if i \<le> a - p \<and> a - p < sz \<and> a - p < 1024 then ucast ((a - p) mod 256) else m a)"

text \<open>What \<open>test_memory_rw\<close> adds in front of the outcome of the rest of the program:
  its two \<open>printf\<close> calls, made when \<open>n\<close> calls have been recorded.\<close>

definition after_rw :: "string \<Rightarrow> (nat \<Rightarrow> resp) \<Rightarrow> nat \<Rightarrow> outcome \<Rightarrow> outcome" where
  "after_rw page_type env n r =
     (status_of r,
      (Printf ''Testing %s memory read/write...\<newline>'' [AStr page_type], env n) #
      (Printf ''%s memory read/write test passed\<newline>'' [AStr page_type], env (Suc n)) #
      trace_of r,
      mem_of r)"

subsection \<open>Properties of all runs, read off the call tree\<close>

text \<open>The calls \<open>run\<close> records: all but the \<open>char\<close> accesses.\<close>

fun recorded :: "call \<Rightarrow> bool" where
  "recorded (Store8 a v) = False"
| "recorded (Load8 a) = False"
| "recorded c = True"

text \<open>\<open>calls_in P p\<close>: every recorded call anywhere in \<open>p\<close> satisfies \<open>P\<close>.\<close>

primrec calls_in :: "(call \<Rightarrow> bool) \<Rightarrow> proc \<Rightarrow> bool" where
  "calls_in P (Halt st) = True"
| "calls_in P (Sys c k) = ((recorded c \<longrightarrow> P c) \<and> (\<forall>r. calls_in P (k r)))"

text \<open>\<open>exits Q p l\<close>: wherever \<open>p\<close> ends, the last recorded call \<open>l\<close> (if any) and
  the status satisfy \<open>Q\<close>.\<close>

primrec exits :: "(call option \<Rightarrow> status \<Rightarrow> bool) \<Rightarrow> proc \<Rightarrow> call option \<Rightarrow> bool" where
  "exits Q (Halt st) l = Q l st"
| "exits Q (Sys c k) l = (\<forall>r. exits Q (k r) (if recorded c then Some c else l))"


text \<open>\<open>fatal_stops F T p n\<close>: when the \<open>n\<close>-th recorded call is made in \<open>p\<close> and
  its response is fatal (\<open>F\<close>), what follows is a process of the kind \<open>T\<close>.\<close>

primrec fatal_stops ::
  "(nat \<Rightarrow> call \<Rightarrow> resp \<Rightarrow> bool) \<Rightarrow> (proc \<Rightarrow> bool) \<Rightarrow> proc \<Rightarrow> nat \<Rightarrow> bool" where
  "fatal_stops F T (Halt st) n = True"
| "fatal_stops F T (Sys c k) n =
     (\<forall>r. if recorded c \<and> F n c r then T (k r)
          else fatal_stops F T (k r) (if recorded c then Suc n else n))"




text \<open>The regions mapped and not yet unmapped, from the recorded calls.  A successful
  \<open>mmap\<close> adds its region (for the fixed-address 1GB mapping only when it is at the
  requested address, the condition under which the source uses it); \<open>munmap\<close>
  returning 0 removes the region with this address and length, and it is an error
  (\<open>None\<close>) when there is none.\<close>

fun live_step :: "(addr \<times> 64 word) list option \<Rightarrow> call \<Rightarrow> resp \<Rightarrow> (addr \<times> 64 word) list option" where
  "live_step None c r = None"
| "live_step (Some L) (Mmap a len pr fl fd off) r =
     (if ptr r = MAP_FAILED then Some L
      else if MAP_FIXED \<in> set fl \<and> MAP_HUGE_1GB \<in> set fl \<and> ptr r \<noteq> a then Some L
      else Some ((ptr r, len) # L))"
| "live_step (Some L) (Munmap a len) r =
     (if ret r \<noteq> 0 then Some L
      else if (a, len) \<in> set L then Some (remove1 (a, len) L) else None)"
| "live_step (Some L) c r = Some L"

definition live_from ::
  "(addr \<times> 64 word) list option \<Rightarrow> (call \<times> resp) list \<Rightarrow> (addr \<times> 64 word) list option" where
  "live_from L t = foldl (\<lambda>L (c, r). live_step L c r) L t"

definition live :: "(call \<times> resp) list \<Rightarrow> (addr \<times> 64 word) list option" where
  "live t = live_from (Some []) t"

text \<open>\<open>balanced p L\<close>: wherever \<open>p\<close>, started with the live regions \<open>L\<close>, ends with
  status 0, no region is live and no \<open>munmap\<close> was in error.\<close>

primrec balanced :: "proc \<Rightarrow> (addr \<times> 64 word) list option \<Rightarrow> bool" where
  "balanced (Halt st) L = (st = Exit 0 \<longrightarrow> L = Some [])"
| "balanced (Sys c k) L = (\<forall>r. balanced (k r) (if recorded c then live_step L c r else L))"

subsection \<open>The calls, the fatal results and the exit rule of the two programs\<close>

text \<open>The calls the claim under test allows: \<open>mmap\<close>, \<open>munmap\<close>, \<open>shmget\<close>,
  \<open>shmat\<close>, \<open>shmdt\<close> and \<open>shmctl\<close>, and process exit.\<close>

fun claimed_call :: "call \<Rightarrow> bool" where
  "claimed_call (Mmap a len pr fl fd off) = True"
| "claimed_call (Munmap a len) = True"
| "claimed_call (Shmget key sz fl mode) = True"
| "claimed_call (Shmat shmid a fl) = True"
| "claimed_call (Shmdt a) = True"
| "claimed_call (Shmctl shmid cmd) = True"
| "claimed_call (ExitCall n) = True"
| "claimed_call c = False"

text \<open>The calls \<open>mmap.c\<close> makes, and the calls \<open>shm.c\<close> makes.\<close>

fun mmap_call :: "call \<Rightarrow> bool" where
  "mmap_call (Printf f a) = True"
| "mmap_call (Mmap a len pr fl fd off) = True"
| "mmap_call (Munmap a len) = True"
| "mmap_call (Open path fl mode) = True"
| "mmap_call (Write fd buf n) = True"
| "mmap_call (Lseek fd off w) = True"
| "mmap_call (Close fd) = True"
| "mmap_call (Unlink path) = True"
| "mmap_call (Memset c n) = True"
| "mmap_call c = False"

fun shm_call :: "call \<Rightarrow> bool" where
  "shm_call (Printf f a) = True"
| "shm_call (Perror msg) = True"
| "shm_call (Ftok path c) = True"
| "shm_call (Shmget key sz fl mode) = True"
| "shm_call (Shmctl shmid cmd) = True"
| "shm_call (Shmat shmid a fl) = True"
| "shm_call (Shmdt a) = True"
| "shm_call Getpid = True"
| "shm_call Fork = True"
| "shm_call Wait = True"
| "shm_call (StoreInt a v) = True"
| "shm_call (LoadInt a) = True"
| "shm_call (ExitCall n) = True"
| "shm_call c = False"

text \<open>The results \<open>mmap.c\<close> does not survive: a failed \<open>open\<close>, a failed \<open>munmap\<close>,
  and a failed \<open>mmap\<close> unless it is one of the fixed-address mappings or the huge-page
  file mapping.\<close>

fun mmap_fatal :: "nat \<Rightarrow> call \<Rightarrow> resp \<Rightarrow> bool" where
  "mmap_fatal n (Open path fl mode) r = (ret r < 0)"
| "mmap_fatal n (Munmap a len) r = (ret r \<noteq> 0)"
| "mmap_fatal n (Mmap a len pr fl fd off) r =
     (MAP_FIXED \<notin> set fl \<and> \<not> (MAP_SHARED \<in> set fl \<and> MAP_HUGETLB \<in> set fl) \<and>
      ptr r = MAP_FAILED)"
| "mmap_fatal n c r = False"


text \<open>The calls after which the programs go on whatever the result: the mappings that
  may fail (the fixed-address mappings and the huge-page file mapping), and the calls
  whose result is not looked at.\<close>

fun survivable :: "call \<Rightarrow> bool" where
  "survivable (Mmap a len pr fl fd off) =
     (MAP_FIXED \<in> set fl \<or> (MAP_SHARED \<in> set fl \<and> MAP_HUGETLB \<in> set fl))"
| "survivable (Write fd buf n) = True"
| "survivable (Lseek fd off w) = True"
| "survivable (Close fd) = True"
| "survivable (Unlink path) = True"
| "survivable (Shmat shmid a fl) = True"
| "survivable Wait = True"
| "survivable c = False"

text \<open>\<open>goes_on C p\<close>: wherever \<open>p\<close> makes a call of the kind \<open>C\<close>, it makes a
  further call after it, whatever the response.\<close>

primrec goes_on :: "(call \<Rightarrow> bool) \<Rightarrow> proc \<Rightarrow> bool" where
  "goes_on C (Halt st) = True"
| "goes_on C (Sys c k) =
     (\<forall>r. (C c \<longrightarrow> (case k r of Halt st \<Rightarrow> False | Sys c' k' \<Rightarrow> recorded c')) \<and>
          goes_on C (k r))"

text \<open>How the last recorded call decides the status.  After \<open>exit(n)\<close> the status is
  \<open>n\<close>, which is 0 or 1.  A run that ends with a \<open>perror\<close> has status 1 (nothing is
  said about the \<open>perror\<close> of the first \<open>shmctl(IPC_STAT)\<close>, which is followed by
  \<open>return;\<close>).  A run that ends with a store to the segment was killed by the fault; one
  that ends with a load was killed by the fault or aborted by the failed comparison.
  Every other run ends with status 0 or is aborted.\<close>

fun exit_rule :: "call option \<Rightarrow> status \<Rightarrow> bool" where
  "exit_rule (Some (ExitCall n)) st = (st = Exit n \<and> (n = 0 \<or> n = 1))"
| "exit_rule (Some (Perror msg)) st = (msg = ''shmctl IPC_STAT failed'' \<or> st = Exit 1)"
| "exit_rule (Some (StoreInt a v)) st = (st = Segfault)"
| "exit_rule (Some (LoadInt a)) st = (st = Segfault \<or> st = Aborted)"
| "exit_rule l st = (st = Exit 0 \<or> st = Aborted)"

subsection \<open>Concrete kernels\<close>

text \<open>A response of success (result 0, a mapping at \<open>0x10000000\<close>), a response of
  failure (result \<open>-1\<close>, \<open>MAP_FAILED\<close>), and the kernel in which exactly the call
  number \<open>n\<close> fails.\<close>

definition ok_resp :: resp where
  "ok_resp = \<lparr>ret = 0, ptr = 0x10000000, byte = 0, ds = no_ds, fault = False\<rparr>"

definition failed_resp :: resp where
  "failed_resp = \<lparr>ret = - 1, ptr = MAP_FAILED, byte = 0, ds = no_ds, fault = False\<rparr>"

definition fail_at :: "nat \<Rightarrow> nat \<Rightarrow> resp" where
  "fail_at n i = (if i = n then failed_resp else ok_resp)"

subsection \<open>The creator pid in the response of \<open>shmctl\<close>\<close>

text \<open>\<open>set_cpid v r\<close> is the response \<open>r\<close> with \<open>shm_cpid\<close> replaced by \<open>v\<close>.
  \<open>cpid_blind p\<close>: at every call of \<open>p\<close>, what the process does next is the same
  for two responses that differ in \<open>shm_cpid\<close> only.\<close>

definition set_cpid :: "int \<Rightarrow> resp \<Rightarrow> resp" where
  "set_cpid v r = r\<lparr>ds := (ds r)\<lparr>shm_cpid := v\<rparr>\<rparr>"

primrec cpid_blind :: "proc \<Rightarrow> bool" where
  "cpid_blind (Halt st) = True"
| "cpid_blind (Sys c k) = (\<forall>r. (\<forall>v. k (set_cpid v r) = k r) \<and> cpid_blind (k r))"

text \<open>A kernel for \<open>shm.c\<close> in which the first \<open>shmctl(IPC_STAT)\<close> (call number 2)
  succeeds and reports the key returned by \<open>ftok\<close>, the creator pid \<open>cp\<close>, no
  attachment and the size asked for; every other call returns 7.\<close>

definition stat_env :: "int \<Rightarrow> nat \<Rightarrow> resp" where
  "stat_env cp i =
     (if i = 2
      then \<lparr>ret = 0, ptr = 0, byte = 0,
            ds = \<lparr>shm_perm_key = 7, shm_cpid = cp, shm_nattch = 0, shm_segsz = 40000\<rparr>,
            fault = False\<rparr>
      else \<lparr>ret = 7, ptr = 0x10000000, byte = 0, ds = no_ds, fault = False\<rparr>)"

section \<open>Parent and child on a kernel with System V shared memory\<close>

text \<open>
  Modelled from the spec: the kernel side of \<open>shmget\<close>, \<open>shmat\<close>, \<open>shmdt\<close>,
  \<open>shmctl\<close>, \<open>fork\<close> and \<open>wait\<close>, which is not among the sources.  The spec
  says that the kernel keeps the bookkeeping structure \<open>shmid_ds\<close> with attach counts
  and segment sizes, that the program validates attach-count bookkeeping and data
  visibility between processes across a fork, and that parent and child are
  synchronised by \<open>fork\<close>/\<open>wait\<close>, with visibility guaranteed by the kernel.
  Accordingly: \<open>shmget\<close> creates a segment that records key, creator pid and size,
  with no attachment and zeroed contents; \<open>shmat\<close> adds one to the attach count and
  \<open>shmdt\<close> takes one off; \<open>shmctl(IPC_STAT)\<close> reports the record; every process
  attached to a segment loads and stores the same contents; \<open>fork\<close> starts the child
  with the parent's continuation and result 0; \<open>wait\<close> blocks until the child has
  ended.  A process that ends is detached from its segments.  An access to an address
  that is not in an attached segment faults.
\<close>

record segment =
  seg_key :: int
  seg_cpid :: int
  seg_size :: nat
  seg_nattch :: nat
  seg_data :: "nat \<Rightarrow> int"

record task =
  code :: proc
  pid :: int
  attached :: "(addr \<times> int) list"

record system =
  segs :: "(int \<times> segment) list"
  parent :: task
  child :: "task option"

datatype who = Parent | Child

text \<open>What the model does not fix: the key \<open>ftok\<close> computes, the two pids, and the
  address at which \<open>shmat\<close> attaches.\<close>

record config =
  ftok_key :: int
  parent_pid :: int
  child_pid :: int
  attach_at :: addr

datatype kres = Resp resp system | Blocked | Kill status

definition stat_of :: "segment \<Rightarrow> shmid_ds" where
  "stat_of g = \<lparr>shm_perm_key = seg_key g, shm_cpid = seg_cpid g,
                shm_nattch = seg_nattch g, shm_segsz = seg_size g\<rparr>"

definition seg_upd :: "int \<Rightarrow> (segment \<Rightarrow> segment) \<Rightarrow> system \<Rightarrow> system" where
  "seg_upd shmid f s =
     s\<lparr>segs := map (\<lambda>(i, g). if i = shmid then (i, f g) else (i, g)) (segs s)\<rparr>"

fun task_of :: "who \<Rightarrow> system \<Rightarrow> task option" where
  "task_of Parent s = Some (parent s)"
| "task_of Child s = child s"

fun set_task :: "who \<Rightarrow> task \<Rightarrow> system \<Rightarrow> system" where
  "set_task Parent t s = s\<lparr>parent := t\<rparr>"
| "set_task Child t s = s\<lparr>child := Some t\<rparr>"

text \<open>The \<open>int\<close> a process reaches at address \<open>a\<close>: the segment attached at a base
  address below \<open>a\<close>, and the index of the \<open>int\<close> in it.\<close>

definition resolve :: "task \<Rightarrow> system \<Rightarrow> addr \<Rightarrow> (int \<times> nat) option" where
  "resolve t s a =
     (case find (\<lambda>(base, shmid).
             case map_of (segs s) shmid of
               None \<Rightarrow> False
             | Some g \<Rightarrow> base \<le> a \<and> unat (a - base) + sizeof_int \<le> seg_size g \<and>
                         unat (a - base) mod sizeof_int = 0)
           (attached t) of
        None \<Rightarrow> None
      | Some (base, shmid) \<Rightarrow> Some (shmid, unat (a - base) div sizeof_int))"

definition kernel :: "config \<Rightarrow> who \<Rightarrow> task \<Rightarrow> call \<Rightarrow> system \<Rightarrow> kres" where
  "kernel cfg w t c s =
     (case c of
        Ftok path proj \<Rightarrow> Resp (no_resp\<lparr>ret := ftok_key cfg\<rparr>) s
      | Getpid \<Rightarrow> Resp (no_resp\<lparr>ret := pid t\<rparr>) s
      | Printf f a \<Rightarrow> Resp no_resp s
      | Perror msg \<Rightarrow> Resp no_resp s
      | ExitCall n \<Rightarrow> Resp no_resp s
      | Shmget key sz fl mode \<Rightarrow>
          (case find (\<lambda>(i, g). seg_key g = key) (segs s) of
             Some (i, g) \<Rightarrow> Resp (no_resp\<lparr>ret := (if sz \<le> seg_size g then i else - 1)\<rparr>) s
           | None \<Rightarrow>
               if IPC_CREAT \<in> set fl
               then Resp (no_resp\<lparr>ret := int (length (segs s))\<rparr>)
                      (s\<lparr>segs := segs s @
                         [(int (length (segs s)),
                           \<lparr>seg_key = key, seg_cpid = pid t, seg_size = sz, seg_nattch = 0,
                            seg_data = (\<lambda>_. 0)\<rparr>)]\<rparr>)
               else Resp (no_resp\<lparr>ret := - 1\<rparr>) s)
      | Shmctl shmid cmd \<Rightarrow>
          (case map_of (segs s) shmid of
             None \<Rightarrow> Resp (no_resp\<lparr>ret := - 1\<rparr>) s
           | Some g \<Rightarrow>
               (case cmd of
                  IPC_STAT \<Rightarrow> Resp (no_resp\<lparr>ds := stat_of g\<rparr>) s
                | IPC_RMID \<Rightarrow> Resp no_resp (s\<lparr>segs := filter (\<lambda>(i, g). i \<noteq> shmid) (segs s)\<rparr>)))
      | Shmat shmid a fl \<Rightarrow>
          (case map_of (segs s) shmid of
             None \<Rightarrow> Resp (no_resp\<lparr>ptr := - 1\<rparr>) s
           | Some g \<Rightarrow>
               Resp (no_resp\<lparr>ptr := attach_at cfg\<rparr>)
                 (set_task w (t\<lparr>attached := (attach_at cfg, shmid) # attached t\<rparr>)
                    (seg_upd shmid (\<lambda>g. g\<lparr>seg_nattch := seg_nattch g + 1\<rparr>) s)))
      | Shmdt a \<Rightarrow>
          (case find (\<lambda>(base, shmid). base = a) (attached t) of
             None \<Rightarrow> Resp (no_resp\<lparr>ret := - 1\<rparr>) s
           | Some (base, shmid) \<Rightarrow>
               Resp no_resp
                 (set_task w (t\<lparr>attached := remove1 (base, shmid) (attached t)\<rparr>)
                    (seg_upd shmid (\<lambda>g. g\<lparr>seg_nattch := seg_nattch g - 1\<rparr>) s)))
      | StoreInt a v \<Rightarrow>
          (case resolve t s a of
             None \<Rightarrow> Resp (no_resp\<lparr>fault := True\<rparr>) s
           | Some (shmid, i) \<Rightarrow>
               Resp no_resp (seg_upd shmid (\<lambda>g. g\<lparr>seg_data := (seg_data g)(i := v)\<rparr>) s))
      | LoadInt a \<Rightarrow>
          (case resolve t s a of
             None \<Rightarrow> Resp (no_resp\<lparr>fault := True\<rparr>) s
           | Some (shmid, i) \<Rightarrow>
               (case map_of (segs s) shmid of
                  None \<Rightarrow> Resp (no_resp\<lparr>fault := True\<rparr>) s
                | Some g \<Rightarrow> Resp (no_resp\<lparr>ret := seg_data g i\<rparr>) s))
      | Wait \<Rightarrow>
          (case w of
             Child \<Rightarrow> Resp (no_resp\<lparr>ret := - 1\<rparr>) s
           | Parent \<Rightarrow>
               (case child s of
                  None \<Rightarrow> Resp (no_resp\<lparr>ret := - 1\<rparr>) s
                | Some ct \<Rightarrow>
                    (case code ct of
                       Halt st \<Rightarrow> Resp (no_resp\<lparr>ret := pid ct\<rparr>) s
                     | Sys c' k' \<Rightarrow> Blocked)))
      | Fork \<Rightarrow> Resp (no_resp\<lparr>ret := - 1\<rparr>) s
      | Store8 a v \<Rightarrow> Kill Segfault
      | Load8 a \<Rightarrow> Kill Segfault
      | _ \<Rightarrow> Resp (no_resp\<lparr>ret := - 1, ptr := - 1\<rparr>) s)"

text \<open>A process that has ended is detached from the segments it was attached to.\<close>

definition settle :: "who \<Rightarrow> system \<Rightarrow> system" where
  "settle w s =
     (case task_of w s of
        None \<Rightarrow> s
      | Some t \<Rightarrow>
          (case code t of
             Sys c k \<Rightarrow> s
           | Halt st \<Rightarrow>
               set_task w (t\<lparr>attached := []\<rparr>)
                 (foldr (\<lambda>(base, shmid). seg_upd shmid (\<lambda>g. g\<lparr>seg_nattch := seg_nattch g - 1\<rparr>))
                    (attached t) s)))"

text \<open>One step of the parent or of the child: the next call of the process is answered by
  the kernel and the process continues with the response.  \<open>fork\<close> in the parent starts
  the child with the continuation of the call at result 0.  \<open>None\<close>: the process does
  not exist, has ended, or is blocked in \<open>wait\<close>.\<close>

definition step :: "config \<Rightarrow> who \<Rightarrow> system \<Rightarrow> system option" where
  "step cfg w s =
     (case task_of w s of
        None \<Rightarrow> None
      | Some t \<Rightarrow>
          (case code t of
             Halt st \<Rightarrow> None
           | Sys c k \<Rightarrow>
               if c = Fork \<and> w = Parent \<and> child s = None
               then Some (s\<lparr>parent := t\<lparr>code := k (no_resp\<lparr>ret := child_pid cfg\<rparr>)\<rparr>,
                            child := Some \<lparr>code = k (no_resp\<lparr>ret := 0\<rparr>), pid = child_pid cfg,
                                           attached = []\<rparr>\<rparr>)
               else
                 (case kernel cfg w t c s of
                    Blocked \<Rightarrow> None
                  | Kill st \<Rightarrow> Some (settle w (set_task w (t\<lparr>code := Halt st\<rparr>) s))
                  | Resp r s' \<Rightarrow>
                      (case task_of w s' of
                         None \<Rightarrow> None
                       | Some t' \<Rightarrow> Some (settle w (set_task w (t'\<lparr>code := k r\<rparr>) s'))))))"

definition boot :: "config \<Rightarrow> proc \<Rightarrow> system" where
  "boot cfg p = \<lparr>segs = [], parent = \<lparr>code = p, pid = parent_pid cfg, attached = []\<rparr>,
                 child = None\<rparr>"

text \<open>A schedule says who takes the next step; a process that cannot step is skipped.\<close>

fun run_sched :: "config \<Rightarrow> who list \<Rightarrow> system \<Rightarrow> system" where
  "run_sched cfg [] s = s"
| "run_sched cfg (w # ws) s =
     run_sched cfg ws (case step cfg w s of None \<Rightarrow> s | Some s' \<Rightarrow> s')"

definition successors :: "config \<Rightarrow> system \<Rightarrow> system list" where
  "successors cfg s =
     (case step cfg Parent s of None \<Rightarrow> [] | Some s' \<Rightarrow> [s']) @
     (case step cfg Child s of None \<Rightarrow> [] | Some s' \<Rightarrow> [s'])"

text \<open>\<open>check cfg n P F s\<close>: \<open>P\<close> holds in \<open>s\<close> and in every state reachable from it,
  \<open>F\<close> holds in every such state from which no step is possible, and no sequence of
  steps from \<open>s\<close> is longer than \<open>n\<close>.\<close>

fun check :: "config \<Rightarrow> nat \<Rightarrow> (system \<Rightarrow> bool) \<Rightarrow> (system \<Rightarrow> bool) \<Rightarrow> system \<Rightarrow> bool" where
  "check cfg 0 P F s = (P s \<and> F s \<and> successors cfg s = [])"
| "check cfg (Suc n) P F s =
     (P s \<and> (case successors cfg s of [] \<Rightarrow> F s | s' # ss \<Rightarrow> list_all (check cfg n P F) (s' # ss)))"

fun halted :: "proc \<Rightarrow> status option" where
  "halted (Halt st) = Some st"
| "halted (Sys c k) = None"

fun next_call :: "proc \<Rightarrow> call option" where
  "next_call (Halt st) = None"
| "next_call (Sys c k) = Some c"

subsection \<open>What is observed of a system state\<close>

definition child_status :: "system \<Rightarrow> status option" where
  "child_status s = (case child s of None \<Rightarrow> None | Some t \<Rightarrow> halted (code t))"

definition nattch_of :: "system \<Rightarrow> int \<Rightarrow> nat option" where
  "nattch_of s shmid =
     (case map_of (segs s) shmid of None \<Rightarrow> None | Some g \<Rightarrow> Some (seg_nattch g))"









text \<open>A configuration: \<open>ftok\<close> gives \<open>0x41010002\<close>, the parent is process 100, the
  child process 101, and segments are attached at \<open>0x7f0000000000\<close>.\<close>

definition cfg0 :: config where
  "cfg0 = \<lparr>ftok_key = 0x41010002, parent_pid = 100, child_pid = 101,
           attach_at = 0x7f0000000000\<rparr>"


text \<open>Schedules: the parent runs up to and including \<open>fork\<close> (five steps); then the
  child runs alone for \<open>n\<close> steps.\<close>

definition to_fork :: "who list" where
  "to_fork = [Parent, Parent, Parent, Parent, Parent]"

definition child_first :: "nat \<Rightarrow> who list" where
  "child_first n = to_fork @ replicate n Child"


section \<open>Properties\<close>

subsection \<open>Runs\<close>

lemma run_recorded:
  "recorded c \<Longrightarrow>
   run (Sys c k) env m n =
     (case run (k (env n)) env m (Suc n) of (st, t, m') \<Rightarrow> (st, (c, env n) # t, m'))"
  by (cases c) simp_all

lemma run_unrecorded:
  assumes "\<not> recorded c"
  shows "\<exists>r' m'. run (Sys c k) env m n = run (k r') env m' n"
proof (cases c)
  case (Store8 a v)
  then show ?thesis
    by (intro exI [of _ no_resp] exI [of _ "m(a := v)"]) simp
next
  case (Load8 a)
  then show ?thesis
    by (intro exI [of _ "no_resp\<lparr>byte := m a\<rparr>"] exI [of _ m]) simp
qed (use assms in simp_all)

lemma status_of_recorded:
  "recorded c \<Longrightarrow> status_of (run (Sys c k) env m n) = status_of (run (k (env n)) env m (Suc n))"
  by (simp add: run_recorded status_of_def split: prod.splits del: run.simps)

lemma trace_of_recorded:
  "recorded c \<Longrightarrow>
   trace_of (run (Sys c k) env m n) = (c, env n) # trace_of (run (k (env n)) env m (Suc n))"
  by (simp add: run_recorded trace_of_def split: prod.splits del: run.simps)

lemma mem_of_recorded:
  "recorded c \<Longrightarrow> mem_of (run (Sys c k) env m n) = mem_of (run (k (env n)) env m (Suc n))"
  by (simp add: run_recorded mem_of_def split: prod.splits del: run.simps)

lemma outcome_simps [simp]:
  "status_of (st, t, m) = st" "trace_of (st, t, m) = t" "mem_of (st, t, m) = m"
  by (simp_all add: status_of_def trace_of_def mem_of_def)

lemma calls_in_run:
  "calls_in P p \<Longrightarrow> \<forall>x \<in> set (trace_of (run p env m n)). P (fst x)"
proof (induction p arbitrary: m n)
  case (Halt st)
  then show ?case by simp
next
  case (Sys c k)
  show ?case
  proof (cases "recorded c")
    case True
    from Sys.prems True have "P c" and "calls_in P (k (env n))"
      by simp_all
    then show ?thesis
      using Sys.IH [of "k (env n)" m "Suc n"]
      by (simp add: trace_of_recorded [OF True] del: run.simps)
  next
    case False
    then obtain r' m' where eq: "run (Sys c k) env m n = run (k r') env m' n"
      using run_unrecorded by blast
    from Sys.prems have "calls_in P (k r')" by simp
    then show ?thesis
      using Sys.IH [of "k r'" m' n] by (simp only: eq) simp
  qed
qed


lemma balanced_run:
  "balanced p L \<Longrightarrow> status_of (run p env m n) = Exit 0 \<Longrightarrow>
   live_from L (trace_of (run p env m n)) = Some []"
proof (induction p arbitrary: L m n)
  case (Halt st)
  then show ?case by (simp add: live_from_def)
next
  case (Sys c k)
  show ?case
  proof (cases "recorded c")
    case True
    from Sys.prems(1) True have "balanced (k (env n)) (live_step L c (env n))"
      by simp
    moreover have "status_of (run (k (env n)) env m (Suc n)) = Exit 0"
      using Sys.prems(2) by (simp only: status_of_recorded [OF True])
    ultimately have "live_from (live_step L c (env n)) (trace_of (run (k (env n)) env m (Suc n))) = Some []"
      by (intro Sys.IH) simp_all
    then show ?thesis
      by (simp add: trace_of_recorded [OF True] live_from_def del: run.simps)
  next
    case False
    then obtain r' m' where eq: "run (Sys c k) env m n = run (k r') env m' n"
      using run_unrecorded by blast
    from Sys.prems(1) False have "balanced (k r') L" by simp
    moreover have "status_of (run (k r') env m' n) = Exit 0"
      using Sys.prems(2) by (simp only: eq)
    ultimately have "live_from L (trace_of (run (k r') env m' n)) = Some []"
      by (intro Sys.IH) simp_all
    then show ?thesis by (simp only: eq)
  qed
qed


subsection \<open>The loops of \<open>test_memory_rw\<close>\<close>

lemma succ_le_iff: "i < (1024::64 word) \<Longrightarrow> (i + 1 \<le> d) = (i < d)"
proof -
  assume "i < 1024"
  then have "i \<noteq> - 1" by auto
  then show ?thesis by (simp add: inc_less_eq_iff)
qed

lemma off_eq_iff: "(x - p = (i::64 word)) = (x = p + i)"
  by auto

lemma pattern_step:
  "i < sz \<Longrightarrow> i < 1024 \<Longrightarrow>
   pattern p sz (i + 1) (m(p + i := ucast (i mod 256))) = pattern p sz i m"
  by (auto simp: pattern_def fun_eq_iff succ_le_iff off_eq_iff [symmetric])

lemma pattern_done: "\<not> (i < sz \<and> i < 1024) \<Longrightarrow> pattern p sz i m = m"
  by (auto simp: pattern_def fun_eq_iff)

lemma pattern_at: "i < sz \<Longrightarrow> i < 1024 \<Longrightarrow> pattern p sz 0 m (p + i) = ucast (i mod 256)"
  by (simp add: pattern_def)

lemma pattern_frame: "\<not> (a - p < sz \<and> a - p < 1024) \<Longrightarrow> pattern p sz i m a = m a"
  by (auto simp add: pattern_def)

lemma run_write_loop:
  "run (write_loop p sz i k) env m n = run k env (pattern p sz i m) n"
proof (induction p sz i k arbitrary: m rule: write_loop.induct)
  case (1 p sz i k)
  show ?case
  proof (cases "i < sz \<and> i < 1024")
    case False
    then show ?thesis
      by (auto simp add: write_loop.simps [of p sz i k] pattern_done)
  next
    case True
    with 1 show ?thesis
      by (simp add: write_loop.simps [of p sz i k] pattern_step)
  qed
qed

lemma run_read_loop:
  "\<forall>j. i \<le> j \<and> j < sz \<and> j < 1024 \<longrightarrow> m (p + j) = ucast (j mod 256) \<Longrightarrow>
   run (read_loop p sz i k) env m n = run k env m n"
proof (induction p sz i k rule: read_loop.induct)
  case (1 p sz i k)
  show ?case
  proof (cases "i < sz \<and> i < 1024")
    case False
    then show ?thesis
      by (auto simp add: read_loop.simps [of p sz i k])
  next
    case True
    then have here: "m (p + i) = ucast (i mod 256)"
      using "1.prems" by simp
    have rest: "\<forall>j. i + 1 \<le> j \<and> j < sz \<and> j < 1024 \<longrightarrow> m (p + j) = ucast (j mod 256)"
      using "1.prems" True by (auto simp add: succ_le_iff)
    have "byte (no_resp\<lparr>byte := m (p + i)\<rparr>) = ucast (i mod 256)"
      using here by simp
    from "1.IH" [OF True this rest]
    have "run (read_loop p sz (i + 1) k) env m n = run k env m n" .
    with True here show ?thesis
      by (simp add: read_loop.simps [of p sz i k])
  qed
qed

lemma run_test_memory_rw:
  "run (test_memory_rw p sz page_type k) env m n =
     after_rw page_type env n (run k env (pattern p sz 0 m) (Suc (Suc n)))"
  by (simp add: test_memory_rw_def after_rw_def run_write_loop run_read_loop pattern_at
      split: prod.splits)

lemma byte_ex: "\<exists>r :: resp. byte r = b"
  by (rule exI [of _ "no_resp\<lparr>byte := b\<rparr>"]) simp

lemma calls_in_write_loop [simp]: "calls_in P (write_loop p sz i k) = calls_in P k"
proof (induction p sz i k rule: write_loop.induct)
  case (1 p sz i k)
  then show ?case
    by (subst write_loop.simps) simp
qed

lemma calls_in_read_loop [simp]: "calls_in P (read_loop p sz i k) = calls_in P k"
proof (induction p sz i k rule: read_loop.induct)
  case (1 p sz i k)
  from 1 byte_ex [of "ucast (i mod 256)"] show ?case
    by (subst read_loop.simps) auto
qed

lemma calls_in_test_memory_rw [simp]:
  "calls_in P (test_memory_rw p sz page_type k) =
     (P (Printf ''Testing %s memory read/write...\<newline>'' [AStr page_type]) \<and>
      P (Printf ''%s memory read/write test passed\<newline>'' [AStr page_type]) \<and>
      calls_in P k)"
  by (simp add: test_memory_rw_def)

lemma balanced_write_loop [simp]: "balanced (write_loop p sz i k) L = balanced k L"
proof (induction p sz i k rule: write_loop.induct)
  case (1 p sz i k)
  then show ?case
    by (subst write_loop.simps) simp
qed

lemma balanced_read_loop [simp]: "balanced (read_loop p sz i k) L = balanced k L"
proof (induction p sz i k rule: read_loop.induct)
  case (1 p sz i k)
  from 1 byte_ex [of "ucast (i mod 256)"] show ?case
    by (subst read_loop.simps) auto
qed

lemma live_step_Printf [simp]: "live_step L (Printf f a) r = L"
  by (cases L) simp_all

lemma balanced_test_memory_rw [simp]:
  "balanced (test_memory_rw p sz page_type k) L = balanced k L"
  by (simp add: test_memory_rw_def)

lemma fatal_stops_write_loop [simp]:
  "fatal_stops F T (write_loop p sz i k) n = fatal_stops F T k n"
proof (induction p sz i k rule: write_loop.induct)
  case (1 p sz i k)
  then show ?case
    by (subst write_loop.simps) simp
qed

lemma fatal_stops_read_loop [simp]:
  "fatal_stops F T (read_loop p sz i k) n = fatal_stops F T k n"
proof (induction p sz i k rule: read_loop.induct)
  case (1 p sz i k)
  from 1 byte_ex [of "ucast (i mod 256)"] show ?case
    by (subst read_loop.simps) auto
qed

lemma fatal_stops_test_memory_rw [simp]:
  "fatal_stops mmap_fatal T (test_memory_rw p sz page_type k) n =
     fatal_stops mmap_fatal T k (Suc (Suc n))"
  by (simp add: test_memory_rw_def)

lemma exits_write_loop [simp]: "exits Q (write_loop p sz i k) l = exits Q k l"
proof (induction p sz i k rule: write_loop.induct)
  case (1 p sz i k)
  then show ?case
    by (subst write_loop.simps) simp
qed

lemma exits_read_loop: "Q l Aborted \<Longrightarrow> exits Q (read_loop p sz i k) l = exits Q k l"
proof (induction p sz i k rule: read_loop.induct)
  case (1 p sz i k)
  from 1 byte_ex [of "ucast (i mod 256)"] show ?case
    by (subst read_loop.simps) auto
qed

lemma exits_test_memory_rw [simp]:
  "exits exit_rule (test_memory_rw p sz page_type k) l =
     exits exit_rule k (Some (Printf ''%s memory read/write test passed\<newline>'' [AStr page_type]))"
  by (simp add: test_memory_rw_def exits_read_loop)

subsection \<open>The call trees of the two programs\<close>

lemmas test_defs = test_individual_alloc_rw_free_def test_batch_alloc_rw_free_def
  test_interleaved_alloc_rw_free_def test_eager_vs_lazy_allocation_def
  test_file_mapping_hugepages_def test_linear_mapping_def linear_4k_def linear_2m_def
  linear_1g_def

lemmas shm_defs = shm_main_def shm_child_def shm_parent_def
  child_write_loop.simps parent_check_loop.simps

lemma calls_in_mmap_main: "calls_in mmap_call mmap_main"
  by (simp add: mmap_main_def test_defs Let_def)

lemma calls_in_shm_main: "calls_in shm_call shm_main"
  by (simp add: shm_defs Let_def)





lemma balanced_t1: "balanced k (Some L) \<Longrightarrow> balanced (test_individual_alloc_rw_free k) (Some L)"
  by (simp add: test_individual_alloc_rw_free_def)

lemma balanced_t2: "balanced k (Some L) \<Longrightarrow> balanced (test_batch_alloc_rw_free k) (Some L)"
  by (simp add: test_batch_alloc_rw_free_def)

lemma balanced_t3: "balanced k (Some L) \<Longrightarrow> balanced (test_interleaved_alloc_rw_free k) (Some L)"
  by (simp add: test_interleaved_alloc_rw_free_def)

lemma balanced_t4: "balanced k (Some L) \<Longrightarrow> balanced (test_eager_vs_lazy_allocation k) (Some L)"
  by (simp add: test_eager_vs_lazy_allocation_def)

lemma balanced_t5: "balanced k (Some L) \<Longrightarrow> balanced (test_file_mapping_hugepages k) (Some L)"
  by (simp add: test_file_mapping_hugepages_def Let_def)

lemma balanced_t6: "balanced k (Some L) \<Longrightarrow> balanced (test_linear_mapping k) (Some L)"
  by (simp add: test_linear_mapping_def linear_4k_def linear_2m_def linear_1g_def)

lemma balanced_mmap_main: "balanced mmap_main (Some [])"
  unfolding mmap_main_def
  by (simp add: balanced_t1 balanced_t2 balanced_t3 balanced_t4 balanced_t5 balanced_t6)

lemma status_of_after_rw [simp]: "status_of (after_rw page_type env n r) = status_of r"
  by (simp add: after_rw_def)

lemma trace_of_after_rw [simp]:
  "trace_of (after_rw page_type env n r) =
      (Printf ''Testing %s memory read/write...\<newline>'' [AStr page_type], env n) #
      (Printf ''%s memory read/write test passed\<newline>'' [AStr page_type], env (Suc n)) #
      trace_of r"
  by (simp add: after_rw_def)

lemma mem_of_after_rw [simp]: "mem_of (after_rw page_type env n r) = mem_of r"
  by (simp add: after_rw_def)

lemma status_of_Halt: "status_of (run (Halt st) env m n) = st"
  by simp

lemma trace_of_Halt: "trace_of (run (Halt st) env m n) = []"
  by simp

lemmas eval_run = status_of_recorded trace_of_recorded run_test_memory_rw
  status_of_Halt trace_of_Halt

subsection \<open>Responses that differ in the creator pid\<close>

lemma set_cpid_simps [simp]:
  "ret (set_cpid v r) = ret r" "ptr (set_cpid v r) = ptr r" "byte (set_cpid v r) = byte r"
  "ds (set_cpid v r) = (ds r)\<lparr>shm_cpid := v\<rparr>" "fault (set_cpid v r) = fault r"
  by (simp_all add: set_cpid_def)

lemma cpid_blind_run:
  "cpid_blind p \<Longrightarrow>
   run p (\<lambda>i. set_cpid v (env i)) m n =
     (status_of (run p env m n),
      map (\<lambda>(c, r). (c, set_cpid v r)) (trace_of (run p env m n)),
      mem_of (run p env m n))"
proof (induction p arbitrary: m n)
  case (Halt st)
  then show ?case by simp
next
  case (Sys c k)
  show ?case
  proof (cases "recorded c")
    case True
    from Sys.prems have same: "k (set_cpid v (env n)) = k (env n)"
      and blind: "cpid_blind (k (env n))"
      by simp_all
    from Sys.IH [OF _ blind, of m "Suc n"] show ?thesis
      by (cases "run (k (env n)) env m (Suc n)")
        (simp add: run_recorded [OF True] same del: run.simps)
  next
    case False
    from Sys.prems have blind: "\<And>r. cpid_blind (k r)"
      by simp
    from False show ?thesis
    proof (cases c)
      case (Store8 a b)
      show ?thesis
        by (simp only: Store8 run.simps call.simps Sys.IH [OF rangeI blind])
    next
      case (Load8 a)
      show ?thesis
        by (simp only: Load8 run.simps call.simps Sys.IH [OF rangeI blind])
    qed simp_all
  qed
qed

lemma ret_ex: "\<exists>r :: resp. \<not> fault r \<and> ret r = x"
  by (rule exI [of _ "no_resp\<lparr>ret := x\<rparr>"]) (simp add: no_resp_def)

lemma no_fault_ex: "\<exists>r :: resp. \<not> fault r"
  by (rule exI [of _ no_resp]) (simp add: no_resp_def)

lemma cpid_blind_child_write_loop [simp]:
  "cpid_blind (child_write_loop p i k) = cpid_blind k"
proof (induction p i k rule: child_write_loop.induct)
  case (1 p i k)
  from 1 no_fault_ex show ?case
    by (subst child_write_loop.simps) auto
qed

lemma cpid_blind_parent_check_loop [simp]:
  "cpid_blind (parent_check_loop p i k) = cpid_blind k"
proof (induction p i k rule: parent_check_loop.induct)
  case (1 p i k)
  from 1 ret_ex [of "i * i"] show ?case
    by (subst parent_check_loop.simps) auto
qed

lemma cpid_blind_shm_child: "cpid_blind (shm_child shm_id)"
  by (simp add: shm_child_def cong: if_cong)

lemma cpid_blind_shm_parent: "cpid_blind (shm_parent shm_id)"
  by (simp add: shm_parent_def cong: if_cong)

lemma cpid_blind_shm_main: "cpid_blind shm_main"
  by (simp add: shm_main_def Let_def cpid_blind_shm_child cpid_blind_shm_parent cong: if_cong)

subsection \<open>After a fatal result\<close>





lemma live_eq: "live t = live_from (Some []) t"
  by (simp add: live_def)

section \<open>The claims\<close>

text \<open>C3: for a mapping of at least one byte, \<open>test_memory_rw\<close> gets through both
  loops without a failed assertion and goes on with the rest of the program (its outcome
  is the outcome of the rest, after the two \<open>printf\<close> calls); in the memory the write
  loop leaves, every offset \<open>i < min(size, 1024)\<close> holds \<open>(char)(i % 256)\<close>, the
  value the read-back loop compares with.\<close>

theorem test_memory_rw_round_trip:
  "1 \<le> sz \<Longrightarrow>
   run (test_memory_rw p sz page_type k) env m n =
     after_rw page_type env n (run k env (pattern p sz 0 m) (Suc (Suc n))) \<and>
   (\<forall>i. i < sz \<and> i < 1024 \<longrightarrow> pattern p sz 0 m (p + i) = ucast (i mod 256))"
  by (simp add: run_test_memory_rw pattern_at)

theorem test_memory_rw_round_trip_witness:
  "(1 :: 64 word) \<le> 4096 \<and>
   status_of (run (test_memory_rw 0x2000 4096 ''4KB'' (Halt (Exit 0))) (\<lambda>_. no_resp) (\<lambda>_. 0) 0)
     = Exit 0 \<and>
   mem_of (run (test_memory_rw 0x2000 4096 ''4KB'' (Halt (Exit 0))) (\<lambda>_. no_resp) (\<lambda>_. 0) 0)
     (0x2000 + 300) = 44"
proof -
  have h: "(1 :: 64 word) \<le> 4096" by simp
  note t = test_memory_rw_round_trip
    [OF h, of "0x2000" "''4KB''" "Halt (Exit 0)" "\<lambda>_. no_resp" "\<lambda>_. 0" 0]
  from t have "(300 :: 64 word) < 4096 \<and> (300 :: 64 word) < 1024 \<longrightarrow>
      pattern 0x2000 4096 0 (\<lambda>_. 0) (0x2000 + 300) = ucast (300 mod 256 :: 64 word)"
    by blast
  then show ?thesis using t by simp
qed

text \<open>C8: \<open>test_memory_rw\<close> changes no byte outside the first \<open>min(size, 1024)\<close>
  offsets of the mapping, and it goes on with the rest of the program whatever the memory
  held before: bytes at offset 1024 or beyond are neither written nor compared.\<close>

theorem test_memory_rw_frame:
  "run (test_memory_rw p sz page_type k) env m n =
     after_rw page_type env n (run k env (pattern p sz 0 m) (Suc (Suc n))) \<and>
   (\<forall>a. \<not> (a - p < sz \<and> a - p < 1024) \<longrightarrow> pattern p sz 0 m a = m a)"
  by (simp add: run_test_memory_rw pattern_frame)

theorem test_memory_rw_frame_witness:
  "\<not> ((0x2401 :: 64 word) - 0x2000 < 2097152 \<and> (0x2401 :: 64 word) - 0x2000 < 1024) \<and>
   mem_of (run (test_memory_rw 0x2000 2097152 ''2MB'' (Halt (Exit 0))) (\<lambda>_. no_resp)
     (\<lambda>_. 0xAA) 0) 0x2401 = 0xAA"
proof -
  note t = test_memory_rw_frame [of "0x2000" 2097152 "''2MB''" "Halt (Exit 0)" "\<lambda>_. no_resp"
      "\<lambda>_. 0xAA" 0]
  from t have "\<not> ((0x2401 :: 64 word) - 0x2000 < 2097152 \<and> (0x2401 :: 64 word) - 0x2000 < 1024) \<longrightarrow>
      pattern 0x2000 2097152 0 (\<lambda>_. 0xAA) 0x2401 = (\<lambda>_. 0xAA) 0x2401"
    by blast
  then show ?thesis using t by simp
qed

lemmas eval_defs = mmap_main_def test_defs eval_run fail_at_def ok_resp_def failed_resp_def
  MAP_FAILED_def base_addr_def Let_def

subsection \<open>Calls after which the programs go on\<close>


lemma goes_on_write_loop [simp]:
  "goes_on survivable (write_loop p sz i k) = goes_on survivable k"
proof (induction p sz i k rule: write_loop.induct)
  case (1 p sz i k)
  then show ?case
    by (subst write_loop.simps) simp
qed

lemma goes_on_read_loop [simp]:
  "goes_on survivable (read_loop p sz i k) = goes_on survivable k"
proof (induction p sz i k rule: read_loop.induct)
  case (1 p sz i k)
  from 1 byte_ex [of "ucast (i mod 256)"] show ?case
    by (subst read_loop.simps) auto
qed

lemma goes_on_test_memory_rw [simp]:
  "goes_on survivable (test_memory_rw p sz page_type k) = goes_on survivable k"
  by (simp add: test_memory_rw_def)

lemma next_test_memory_rw [simp]:
  "(case test_memory_rw p sz page_type k of Halt st \<Rightarrow> False | Sys c' k' \<Rightarrow> recorded c') = True"
  by (simp add: test_memory_rw_def)



text \<open>C7 (as stated): the only calls of the two programs are \<open>mmap\<close>, \<open>munmap\<close>,
  \<open>shmget\<close>, \<open>shmat\<close>, \<open>shmdt\<close> and \<open>shmctl\<close>, plus process exit.  It fails: the
  first call of \<open>shm.c\<close> is \<open>ftok\<close>, and with a kernel in which every call succeeds
  the call number 95 of \<open>mmap.c\<close> is \<open>open\<close>.\<close>

theorem other_calls_are_made:
  "fst (trace_of (run shm_main (\<lambda>_. ok_resp) (\<lambda>_. 0) 0) ! 0) = Ftok ''/tmp'' CHR ''A'' \<and>
   \<not> claimed_call (Ftok ''/tmp'' CHR ''A'') \<and>
   fst (trace_of (run mmap_main (\<lambda>_. ok_resp) (\<lambda>_. 0) 0) ! 95)
     = Open ''/tmp/test_file'' [O_CREAT, O_RDWR] 420 \<and>
   \<not> claimed_call (Open ''/tmp/test_file'' [O_CREAT, O_RDWR] 420)"
  by (simp add: eval_defs shm_main_def del: run.simps)

text \<open>C7 (amended): in every run, the calls of \<open>mmap.c\<close> are among \<open>printf\<close>,
  \<open>mmap\<close>, \<open>munmap\<close>, \<open>open\<close>, \<open>memset\<close>, \<open>write\<close>, \<open>lseek\<close>, \<open>close\<close>
  and \<open>unlink\<close>, and the calls of \<open>shm.c\<close> are among \<open>ftok\<close>, \<open>shmget\<close>,
  \<open>shmctl\<close>, \<open>shmat\<close>, \<open>shmdt\<close>, \<open>getpid\<close>, \<open>fork\<close>, \<open>wait\<close>,
  \<open>perror\<close>, \<open>printf\<close> and \<open>exit\<close>, besides its loads and stores on the shared
  segment; either program may also be ended by the \<open>abort\<close> of a failed \<open>assert\<close> or
  by \<open>return\<close> from \<open>main\<close>.\<close>

theorem calls_of_the_programs:
  "(\<forall>x \<in> set (trace_of (run mmap_main env m n)). mmap_call (fst x)) \<and>
   (\<forall>x \<in> set (trace_of (run shm_main env m n)). shm_call (fst x))"
  using calls_in_run [OF calls_in_mmap_main] calls_in_run [OF calls_in_shm_main] by blast

theorem calls_of_the_programs_witness:
  "(Mmap 0 4096 [PROT_READ, PROT_WRITE] [MAP_PRIVATE, MAP_ANONYMOUS] (- 1) 0, failed_resp)
     \<in> set (trace_of (run mmap_main (\<lambda>_. failed_resp) (\<lambda>_. 0) 0)) \<and>
   mmap_call (fst (Mmap 0 4096 [PROT_READ, PROT_WRITE] [MAP_PRIVATE, MAP_ANONYMOUS] (- 1) 0,
     failed_resp)) \<and>
   (Perror ''shmget failed'', failed_resp)
     \<in> set (trace_of (run shm_main (\<lambda>_. failed_resp) (\<lambda>_. 0) 0)) \<and>
   shm_call (fst (Perror ''shmget failed'', failed_resp))"
proof -
  have 1: "(Mmap 0 4096 [PROT_READ, PROT_WRITE] [MAP_PRIVATE, MAP_ANONYMOUS] (- 1) 0, failed_resp)
     \<in> set (trace_of (run mmap_main (\<lambda>_. failed_resp) (\<lambda>_. 0) 0))"
    by (simp add: eval_defs del: run.simps)
  have 2: "(Perror ''shmget failed'', failed_resp)
     \<in> set (trace_of (run shm_main (\<lambda>_. failed_resp) (\<lambda>_. 0) 0))"
    by (simp add: eval_defs shm_main_def del: run.simps)
  note t = calls_of_the_programs [of "\<lambda>_. failed_resp" "\<lambda>_. 0" 0]
  from t 1 have "mmap_call (fst (Mmap 0 4096 [PROT_READ, PROT_WRITE]
      [MAP_PRIVATE, MAP_ANONYMOUS] (- 1) 0, failed_resp))"
    by blast
  moreover from t 2 have "shm_call (fst (Perror ''shmget failed'', failed_resp))"
    by blast
  ultimately show ?thesis using 1 2 by blast
qed








text \<open>C10 (as stated): on every path of \<open>mmap.c\<close>, each region mapped is unmapped by
  exactly one \<open>munmap\<close>.  It fails on a path that ends in a failed assertion: when the
  2MB mapping of \<open>test_batch_alloc_rw_free\<close> (call number 24) fails, the process is
  aborted while the 4KB region mapped by call number 22 is still mapped.\<close>

theorem aborted_run_leaves_mapping:
  "trace_of (run mmap_main (fail_at 24) (\<lambda>_. 0) 0) ! 22
     = (Mmap 0 4096 [PROT_READ, PROT_WRITE] [MAP_PRIVATE, MAP_ANONYMOUS] (- 1) 0, ok_resp) \<and>
   ptr ok_resp = 0x10000000 \<and>
   status_of (run mmap_main (fail_at 24) (\<lambda>_. 0) 0) = Aborted \<and>
   live (trace_of (run mmap_main (fail_at 24) (\<lambda>_. 0) 0)) = Some [(0x10000000, 4096)]"
  by (simp add: eval_defs live_def live_from_def del: run.simps)

text \<open>C10 (amended): on every path of \<open>mmap.c\<close> that runs to the end of \<open>main\<close>
  (status 0), each region for which \<open>mmap\<close> succeeded (for the fixed-address 1GB mapping:
  succeeded at the requested address) has been passed to exactly one \<open>munmap\<close> with the
  same address and length, which returned 0: no region is left mapped and no \<open>munmap\<close>
  was given a region that was not mapped.\<close>

theorem no_mapping_left:
  "status_of (run mmap_main env m n) = Exit 0 \<Longrightarrow>
   live (trace_of (run mmap_main env m n)) = Some []"
  unfolding live_def by (rule balanced_run [OF balanced_mmap_main])

theorem no_mapping_left_witness:
  "status_of (run mmap_main (\<lambda>_. ok_resp) (\<lambda>_. 0) 0) = Exit 0 \<and>
   live (trace_of (run mmap_main (\<lambda>_. ok_resp) (\<lambda>_. 0) 0)) = Some []"
proof -
  have h: "status_of (run mmap_main (\<lambda>_. ok_resp) (\<lambda>_. 0) 0) = Exit 0"
    by (simp add: eval_defs del: run.simps)
  from no_mapping_left [OF h] h show ?thesis by simp
qed

text \<open>C9: \<open>assert(buf.shm_cpid = getpid())\<close> does not constrain the creator pid the
  kernel reports.  Two runs of \<open>shm.c\<close> against kernels that differ only in the reported
  \<open>shm_cpid\<close> end with the same status and make the same calls with the same responses
  up to \<open>shm_cpid\<close>; and when \<open>getpid\<close> returns a nonzero pid and the other checks
  on the first \<open>IPC_STAT\<close> hold, the program gets to \<open>fork\<close> (its fifth call)
  whatever \<open>shm_cpid\<close> is.\<close>

theorem shm_cpid_not_observed:
  "status_of (run shm_main (\<lambda>i. set_cpid v (env i)) m 0) = status_of (run shm_main env m 0) \<and>
   trace_of (run shm_main (\<lambda>i. set_cpid v (env i)) m 0)
     = map (\<lambda>(c, r). (c, set_cpid v r)) (trace_of (run shm_main env m 0)) \<and>
   (ret (env 1) \<noteq> - 1 \<and> ret (env 2) \<noteq> - 1 \<and> shm_perm_key (ds (env 2)) = ret (env 0) \<and>
    shm_nattch (ds (env 2)) = 0 \<and> shm_segsz (ds (env 2)) = NUM * sizeof_int \<and>
    ret (env 3) \<noteq> 0 \<longrightarrow>
      fst (trace_of (run shm_main env m 0) ! 4) = Fork)"
proof -
  have "fst (trace_of (run shm_main env m 0) ! 4) = Fork"
    if "ret (env 1) \<noteq> - 1" "ret (env 2) \<noteq> - 1" "shm_perm_key (ds (env 2)) = ret (env 0)"
      "shm_nattch (ds (env 2)) = 0" "shm_segsz (ds (env 2)) = NUM * sizeof_int" "ret (env 3) \<noteq> 0"
    using that
    by (simp add: shm_main_def eval_run Let_def numeral_2_eq_2 numeral_3_eq_3 del: run.simps)
  then show ?thesis
    by (simp add: cpid_blind_run [OF cpid_blind_shm_main])
qed

theorem shm_cpid_not_observed_witness:
  "(ret (stat_env 1 1) \<noteq> - 1 \<and> ret (stat_env 1 2) \<noteq> - 1 \<and>
    shm_perm_key (ds (stat_env 1 2)) = ret (stat_env 1 0) \<and>
    shm_nattch (ds (stat_env 1 2)) = 0 \<and> shm_segsz (ds (stat_env 1 2)) = NUM * sizeof_int \<and>
    ret (stat_env 1 3) \<noteq> 0) \<and>
   fst (trace_of (run shm_main (stat_env 1) (\<lambda>_. 0) 0) ! 4) = Fork \<and>
   status_of (run shm_main (\<lambda>i. set_cpid 999 (stat_env 1 i)) (\<lambda>_. 0) 0)
     = status_of (run shm_main (stat_env 1) (\<lambda>_. 0) 0)"
proof -
  have h: "ret (stat_env 1 1) \<noteq> - 1 \<and> ret (stat_env 1 2) \<noteq> - 1 \<and>
    shm_perm_key (ds (stat_env 1 2)) = ret (stat_env 1 0) \<and>
    shm_nattch (ds (stat_env 1 2)) = 0 \<and> shm_segsz (ds (stat_env 1 2)) = NUM * sizeof_int \<and>
    ret (stat_env 1 3) \<noteq> 0"
    by (simp add: stat_env_def NUM_def sizeof_int_def)
  note t = shm_cpid_not_observed [of 999 "stat_env 1" "\<lambda>_. 0"]
  from t h have "fst (trace_of (run shm_main (stat_env 1) (\<lambda>_. 0) 0) ! 4) = Fork"
    by blast
  with t h show ?thesis by blast
qed

subsection \<open>Steps of the system\<close>

lemma kernel_simps:
  "kernel cfg w t (Ftok path proj) s = Resp (no_resp\<lparr>ret := ftok_key cfg\<rparr>) s"
  "kernel cfg w t Getpid s = Resp (no_resp\<lparr>ret := pid t\<rparr>) s"
  "kernel cfg w t (Printf f args) s = Resp no_resp s"
  "kernel cfg w t (Perror msg) s = Resp no_resp s"
  "kernel cfg w t (ExitCall n) s = Resp no_resp s"
  "kernel cfg w t (Shmget key sz fl mode) s =
          (case find (\<lambda>(i, g). seg_key g = key) (segs s) of
             Some (i, g) \<Rightarrow> Resp (no_resp\<lparr>ret := (if sz \<le> seg_size g then i else - 1)\<rparr>) s
           | None \<Rightarrow>
               if IPC_CREAT \<in> set fl
               then Resp (no_resp\<lparr>ret := int (length (segs s))\<rparr>)
                      (s\<lparr>segs := segs s @
                         [(int (length (segs s)),
                           \<lparr>seg_key = key, seg_cpid = pid t, seg_size = sz, seg_nattch = 0,
                            seg_data = (\<lambda>_. 0)\<rparr>)]\<rparr>)
               else Resp (no_resp\<lparr>ret := - 1\<rparr>) s)"
  "kernel cfg w t (Shmctl shmid cmd) s =
          (case map_of (segs s) shmid of
             None \<Rightarrow> Resp (no_resp\<lparr>ret := - 1\<rparr>) s
           | Some g \<Rightarrow>
               (case cmd of
                  IPC_STAT \<Rightarrow> Resp (no_resp\<lparr>ds := stat_of g\<rparr>) s
                | IPC_RMID \<Rightarrow> Resp no_resp (s\<lparr>segs := filter (\<lambda>(i, g). i \<noteq> shmid) (segs s)\<rparr>)))"
  "kernel cfg w t (Shmat shmid a flg) s =
          (case map_of (segs s) shmid of
             None \<Rightarrow> Resp (no_resp\<lparr>ptr := - 1\<rparr>) s
           | Some g \<Rightarrow>
               Resp (no_resp\<lparr>ptr := attach_at cfg\<rparr>)
                 (set_task w (t\<lparr>attached := (attach_at cfg, shmid) # attached t\<rparr>)
                    (seg_upd shmid (\<lambda>g. g\<lparr>seg_nattch := seg_nattch g + 1\<rparr>) s)))"
  "kernel cfg w t (Shmdt a) s =
          (case find (\<lambda>(base, shmid). base = a) (attached t) of
             None \<Rightarrow> Resp (no_resp\<lparr>ret := - 1\<rparr>) s
           | Some (base, shmid) \<Rightarrow>
               Resp no_resp
                 (set_task w (t\<lparr>attached := remove1 (base, shmid) (attached t)\<rparr>)
                    (seg_upd shmid (\<lambda>g. g\<lparr>seg_nattch := seg_nattch g - 1\<rparr>) s)))"
  "kernel cfg w t (StoreInt a v) s =
          (case resolve t s a of
             None \<Rightarrow> Resp (no_resp\<lparr>fault := True\<rparr>) s
           | Some (shmid, i) \<Rightarrow>
               Resp no_resp (seg_upd shmid (\<lambda>g. g\<lparr>seg_data := (seg_data g)(i := v)\<rparr>) s))"
  "kernel cfg w t (LoadInt a) s =
          (case resolve t s a of
             None \<Rightarrow> Resp (no_resp\<lparr>fault := True\<rparr>) s
           | Some (shmid, i) \<Rightarrow>
               (case map_of (segs s) shmid of
                  None \<Rightarrow> Resp (no_resp\<lparr>fault := True\<rparr>) s
                | Some g \<Rightarrow> Resp (no_resp\<lparr>ret := seg_data g i\<rparr>) s))"
  "kernel cfg w t Wait s =
          (case w of
             Child \<Rightarrow> Resp (no_resp\<lparr>ret := - 1\<rparr>) s
           | Parent \<Rightarrow>
               (case child s of
                  None \<Rightarrow> Resp (no_resp\<lparr>ret := - 1\<rparr>) s
                | Some ct \<Rightarrow>
                    (case code ct of
                       Halt st \<Rightarrow> Resp (no_resp\<lparr>ret := pid ct\<rparr>) s
                     | Sys c' k' \<Rightarrow> Blocked)))"
  "kernel cfg w t Fork s = Resp (no_resp\<lparr>ret := - 1\<rparr>) s"
  by (simp_all add: kernel_def)

lemmas sys_defs = step_def kernel_simps boot_def settle_def seg_upd_def resolve_def stat_of_def
  shm_main_def shm_child_def shm_parent_def NUM_def sizeof_int_def Let_def no_resp_def no_ds_def
  child_write_loop.simps parent_check_loop.simps

lemma replicate_num: "replicate (numeral k) x = x # replicate (pred_numeral k) x"
  by (simp add: numeral_eq_Suc)

lemmas sched_defs = to_fork_def child_first_def replicate_num

text \<open>C6: on the kernel of the model, and for a process whose pid is not 0, the
  \<open>IPC_STAT\<close> inquiry that follows the creation of the segment (the third call of the
  program, after \<open>ftok\<close> and \<open>shmget\<close>) reports the key passed to \<open>shmget\<close>, the pid
  of the calling process as creator, no attachment and the size \<open>NUM * sizeof(int)\<close>;
  the four assertions on it hold, so that after \<open>getpid\<close> the program is at
  \<open>fork\<close>.\<close>

theorem ipc_stat_after_creation:
  "parent_pid cfg \<noteq> 0 \<Longrightarrow>
   next_call (code (parent (run_sched cfg [Parent, Parent] (boot cfg shm_main))))
     = Some (Shmctl 0 IPC_STAT) \<and>
   kernel cfg Parent (parent (run_sched cfg [Parent, Parent] (boot cfg shm_main)))
       (Shmctl 0 IPC_STAT) (run_sched cfg [Parent, Parent] (boot cfg shm_main))
     = Resp (no_resp\<lparr>ds := \<lparr>shm_perm_key = ftok_key cfg, shm_cpid = parent_pid cfg,
                               shm_nattch = 0, shm_segsz = NUM * sizeof_int\<rparr>\<rparr>)
         (run_sched cfg [Parent, Parent] (boot cfg shm_main)) \<and>
   next_call (code (parent (run_sched cfg [Parent, Parent, Parent, Parent] (boot cfg shm_main))))
     = Some Fork"
  by (simp add: sys_defs)

theorem ipc_stat_after_creation_witness:
  "parent_pid cfg0 \<noteq> 0 \<and>
   next_call (code (parent (run_sched cfg0 [Parent, Parent, Parent, Parent] (boot cfg0 shm_main))))
     = Some Fork"
proof -
  have h: "parent_pid cfg0 \<noteq> 0" by (simp add: cfg0_def)
  from ipc_stat_after_creation [OF h] h show ?thesis by blast
qed

text \<open>C1: the attach count is 1 after the child's \<open>shmdt\<close>.  On the kernel of the model
  this fails when the child runs before the parent has attached: after \<open>fork\<close> and
  thirteen steps of the child (\<open>shmat\<close>, \<open>shmctl\<close>, ten stores, \<open>shmdt\<close>) the attach
  count is 0 and the child is about to ask for it; its \<open>assert(buf1.shm_nattch == 1)\<close>
  then fails.\<close>

theorem child_first_fails_its_check:
  "nattch_of (run_sched cfg0 (child_first 13) (boot cfg0 shm_main)) 0 = Some 0 \<and>
   (case child (run_sched cfg0 (child_first 13) (boot cfg0 shm_main)) of
      None \<Rightarrow> None | Some t \<Rightarrow> next_call (code t)) = Some (Shmctl 0 IPC_STAT) \<and>
   child_status (run_sched cfg0 (child_first 14) (boot cfg0 shm_main)) = Some Aborted"
  by (simp add: sys_defs sched_defs cfg0_def nattch_of_def child_status_def)

subsection \<open>All schedules\<close>


















end
